theory Spec2Isabelle
  imports Complex_Main
begin

section \<open>The hedging platform: inventory counters and the contract lifecycle\<close>

text \<open>
  A shallow embedding of the contract endpoints of \<^verbatim>\<open>main.py\<close>: \<^verbatim>\<open>list_product\<close>,
  \<^verbatim>\<open>create_contract_by_farmer\<close>, \<^verbatim>\<open>create_contract_by_trader\<close>,
  \<^verbatim>\<open>trader_accept_contract\<close>, \<^verbatim>\<open>farmer_accept_contract\<close>, \<^verbatim>\<open>reject_contract\<close>,
  \<^verbatim>\<open>cancel_contract\<close> and \<^verbatim>\<open>complete_contract\<close>, over the four global dictionaries
  \<^verbatim>\<open>users_db\<close>, \<^verbatim>\<open>products_db\<close>, \<^verbatim>\<open>contracts_db\<close> and \<^verbatim>\<open>sessions\<close>.

  Conventions of the embedding:
  \<^item> every endpoint takes the database and returns its response together with the
    database it leaves behind, so what a raising endpoint has already written stays visible;
  \<^item> an \<^verbatim>\<open>HTTPException\<close> is a value \<open>Inl (HTTPException code detail)\<close>; a request that
    pydantic refuses (\<^verbatim>\<open>Field(gt=0)\<close>) never reaches the handler and is
    \<open>Inl RequestValidationError\<close>; a failing \<^verbatim>\<open>products_db[...]\<close> is \<open>Inl (KeyError k)\<close>;
  \<^item> \<^verbatim>\<open>generate_id()\<close> (a random UUID) and \<^verbatim>\<open>datetime.now().isoformat()\<close> are arguments
    of the endpoint: the identifier it stores under and the clock reading of the request;
  \<^item> quantities and prices are Python floats in the source; they are exact real numbers
    here, so the rounding of binary floating point is outside the model;
  \<^item> the dictionaries hold the fields the contract endpoints read or write; the users'
    password hash, phone and location are left out, and the endpoints \<^verbatim>\<open>register\<close> and
    \<^verbatim>\<open>login\<close>, which write only \<^verbatim>\<open>users_db\<close> and \<^verbatim>\<open>sessions\<close>, and the read-only
    query endpoints are not modelled.
\<close>

subsection \<open>Enums\<close>

datatype UserType = FARMER | TRADER

datatype ProductType = SOYBEAN | SUNFLOWER | GROUNDNUT | MUSTARD | SESAME

datatype UnitType = KG | TONNE

datatype ContractStatus = PENDING | ACTIVE | REJECTED | CANCELLED | COMPLETED

text \<open>\<^verbatim>\<open>CreatedBy\<close> has the members \<^verbatim>\<open>FARMER\<close> and \<^verbatim>\<open>TRADER\<close> too; its value is the string
  the contract stores.\<close>

datatype CreatedBy = BY_FARMER | BY_TRADER

fun CreatedBy_value :: "CreatedBy \<Rightarrow> string" where
  "CreatedBy_value BY_FARMER = ''farmer''"
| "CreatedBy_value BY_TRADER = ''trader''"

subsection \<open>Dictionaries\<close>

type_synonym timestamp = string

record user =
  u_id :: string
  u_email :: string
  u_type :: UserType
  u_name :: string

record product =
  p_id :: string
  p_farmer_id :: string
  p_type :: ProductType
  total_qty :: real
  available_qty :: real
  reserved_qty :: real
  committed_qty :: real
  p_unit :: UnitType
  is_active :: bool
  p_created_at :: timestamp
  p_updated_at :: timestamp

text \<open>The keys \<^verbatim>\<open>rejected_by\<close>, \<^verbatim>\<open>rejection_reason\<close> and \<^verbatim>\<open>completed_by\<close> are absent
  from a new contract and added by the transition that writes them: \<open>None\<close> is the
  absent key.\<close>

record contract =
  c_id :: string
  c_farmer_id :: string
  c_trader_id :: "string option"
  c_product_id :: string
  c_product_type :: ProductType
  c_price_per_unit :: real
  c_qty :: real
  c_unit :: UnitType
  c_total_value :: real
  c_status :: ContractStatus
  c_created_by :: CreatedBy
  c_created_at :: timestamp
  c_accepted_at :: "timestamp option"
  c_accepted_by :: "string option"
  c_completed_at :: "timestamp option"
  c_rejected_at :: "timestamp option"
  c_cancelled_at :: "timestamp option"
  c_expected_delivery_date :: "string option"
  c_notes :: "string option"
  c_rejected_by :: "string option"
  c_rejection_reason :: "string option option"
  c_completed_by :: "string option"

record db =
  users_db :: "string \<rightharpoonup> user"
  products_db :: "string \<rightharpoonup> product"
  contracts_db :: "string \<rightharpoonup> contract"
  sessions :: "string \<rightharpoonup> string"

subsection \<open>Requests\<close>

record ListProductRequest =
  lp_type :: ProductType
  lp_qty :: real
  lp_unit :: UnitType

record CreateContractByFarmerRequest =
  cf_product_id :: string
  cf_price_per_unit :: real
  cf_qty :: real
  cf_unit :: UnitType
  cf_expected_delivery_date :: "string option"
  cf_notes :: "string option"

record CreateContractByTraderRequest =
  ct_farmer_id :: string
  ct_product_id :: string
  ct_price_per_unit :: real
  ct_qty :: real
  ct_unit :: UnitType
  ct_expected_delivery_date :: "string option"
  ct_notes :: "string option"

record AcceptContractRequest =
  ac_contract_id :: string

record RejectContractRequest =
  rj_contract_id :: string
  rj_rejection_reason :: "string option"

record CancelContractRequest =
  cn_contract_id :: string

record CompleteContractRequest =
  cm_contract_id :: string
  cm_completed_by :: CreatedBy

subsection \<open>Errors\<close>

text \<open>One constructor for each \<^verbatim>\<open>detail\<close> text of the source; the two formatted ones carry
  the quantity and the unit they print.\<close>

datatype detail =
    Not_authenticated
  | User_not_found
  | Only_farmers_can_list_products
  | Only_farmers_can_create_farmer_contracts
  | Product_not_found
  | This_product_doesnt_belong_to_you
  | Insufficient_available_quantity real UnitType
  | Only_traders_can_create_trader_contracts
  | Product_doesnt_belong_to_specified_farmer
  | Quantity_exceeds_available_quantity real UnitType
  | Only_traders_can_accept_farmer_contracts
  | Contract_not_found
  | This_is_not_a_farmer_created_contract
  | Contract_is_not_pending
  | Only_farmers_can_accept_trader_contracts
  | This_is_not_a_trader_created_contract
  | This_contract_is_not_for_you
  | Only_traders_can_reject_farmer_contracts
  | Only_the_specified_farmer_can_reject_this_contract
  | Only_the_contract_creator_can_cancel_it
  | Contract_is_not_active
  | You_are_not_part_of_this_contract

datatype error =
    HTTPException nat detail
  | RequestValidationError
  | KeyError string

subsection \<open>Authentication helper\<close>

definition get_current_user_email :: "string \<Rightarrow> db \<Rightarrow> error + user" where
  "get_current_user_email email d =
     (case sessions d email of
        None \<Rightarrow> Inl (HTTPException 401 Not_authenticated)
      | Some user_id \<Rightarrow>
          (case users_db d user_id of
             None \<Rightarrow> Inl (HTTPException 401 User_not_found)
           | Some u \<Rightarrow> Inr u))"

subsection \<open>Product endpoint\<close>

definition list_product ::
  "ListProductRequest \<Rightarrow> string \<Rightarrow> string \<Rightarrow> timestamp \<Rightarrow> db \<Rightarrow> (error + product) \<times> db" where
  "list_product request email product_id now d =
     (if \<not> 0 < lp_qty request then (Inl RequestValidationError, d)
      else case get_current_user_email email d of
        Inl e \<Rightarrow> (Inl e, d)
      | Inr u \<Rightarrow>
          if u_type u \<noteq> FARMER
          then (Inl (HTTPException 403 Only_farmers_can_list_products), d)
          else
            let product = \<lparr> p_id = product_id,
                            p_farmer_id = u_id u,
                            p_type = lp_type request,
                            total_qty = lp_qty request,
                            available_qty = lp_qty request,
                            reserved_qty = 0,
                            committed_qty = 0,
                            p_unit = lp_unit request,
                            is_active = True,
                            p_created_at = now,
                            p_updated_at = now \<rparr>
            in (Inr product, d\<lparr>products_db := (products_db d)(product_id \<mapsto> product)\<rparr>))"

subsection \<open>Contract endpoints\<close>

definition create_contract_by_farmer ::
  "CreateContractByFarmerRequest \<Rightarrow> string \<Rightarrow> string \<Rightarrow> timestamp \<Rightarrow> db
     \<Rightarrow> (error + contract) \<times> db" where
  "create_contract_by_farmer request email contract_id now d =
     (if \<not> (0 < cf_price_per_unit request \<and> 0 < cf_qty request)
      then (Inl RequestValidationError, d)
      else case get_current_user_email email d of
        Inl e \<Rightarrow> (Inl e, d)
      | Inr u \<Rightarrow>
          if u_type u \<noteq> FARMER
          then (Inl (HTTPException 403 Only_farmers_can_create_farmer_contracts), d)
          else case products_db d (cf_product_id request) of
            None \<Rightarrow> (Inl (HTTPException 404 Product_not_found), d)
          | Some product \<Rightarrow>
              if p_farmer_id product \<noteq> u_id u
              then (Inl (HTTPException 403 This_product_doesnt_belong_to_you), d)
              else
                let available_for_contract = available_qty product - reserved_qty product in
                if cf_qty request > available_for_contract
                then (Inl (HTTPException 400
                        (Insufficient_available_quantity available_for_contract (p_unit product))), d)
                else
                  let contract = \<lparr> c_id = contract_id,
                                   c_farmer_id = u_id u,
                                   c_trader_id = None,
                                   c_product_id = cf_product_id request,
                                   c_product_type = p_type product,
                                   c_price_per_unit = cf_price_per_unit request,
                                   c_qty = cf_qty request,
                                   c_unit = cf_unit request,
                                   c_total_value = cf_price_per_unit request * cf_qty request,
                                   c_status = PENDING,
                                   c_created_by = BY_FARMER,
                                   c_created_at = now,
                                   c_accepted_at = None,
                                   c_accepted_by = None,
                                   c_completed_at = None,
                                   c_rejected_at = None,
                                   c_cancelled_at = None,
                                   c_expected_delivery_date = cf_expected_delivery_date request,
                                   c_notes = cf_notes request,
                                   c_rejected_by = None,
                                   c_rejection_reason = None,
                                   c_completed_by = None \<rparr>
                  in (Inr contract,
                      d\<lparr>contracts_db := (contracts_db d)(contract_id \<mapsto> contract),
                        products_db := (products_db d)(cf_product_id request \<mapsto>
                          product\<lparr>reserved_qty := reserved_qty product + cf_qty request,
                                  p_updated_at := now\<rparr>)\<rparr>))"

definition create_contract_by_trader ::
  "CreateContractByTraderRequest \<Rightarrow> string \<Rightarrow> string \<Rightarrow> timestamp \<Rightarrow> db
     \<Rightarrow> (error + contract) \<times> db" where
  "create_contract_by_trader request email contract_id now d =
     (if \<not> (0 < ct_price_per_unit request \<and> 0 < ct_qty request)
      then (Inl RequestValidationError, d)
      else case get_current_user_email email d of
        Inl e \<Rightarrow> (Inl e, d)
      | Inr u \<Rightarrow>
          if u_type u \<noteq> TRADER
          then (Inl (HTTPException 403 Only_traders_can_create_trader_contracts), d)
          else case products_db d (ct_product_id request) of
            None \<Rightarrow> (Inl (HTTPException 404 Product_not_found), d)
          | Some product \<Rightarrow>
              if ct_farmer_id request \<noteq> p_farmer_id product
              then (Inl (HTTPException 400 Product_doesnt_belong_to_specified_farmer), d)
              else if ct_qty request > available_qty product
              then (Inl (HTTPException 400
                      (Quantity_exceeds_available_quantity (available_qty product) (p_unit product))), d)
              else
                let contract = \<lparr> c_id = contract_id,
                                 c_farmer_id = ct_farmer_id request,
                                 c_trader_id = Some (u_id u),
                                 c_product_id = ct_product_id request,
                                 c_product_type = p_type product,
                                 c_price_per_unit = ct_price_per_unit request,
                                 c_qty = ct_qty request,
                                 c_unit = ct_unit request,
                                 c_total_value = ct_price_per_unit request * ct_qty request,
                                 c_status = PENDING,
                                 c_created_by = BY_TRADER,
                                 c_created_at = now,
                                 c_accepted_at = None,
                                 c_accepted_by = None,
                                 c_completed_at = None,
                                 c_rejected_at = None,
                                 c_cancelled_at = None,
                                 c_expected_delivery_date = ct_expected_delivery_date request,
                                 c_notes = ct_notes request,
                                 c_rejected_by = None,
                                 c_rejection_reason = None,
                                 c_completed_by = None \<rparr>
                in (Inr contract,
                    d\<lparr>contracts_db := (contracts_db d)(contract_id \<mapsto> contract)\<rparr>))"

definition trader_accept_contract ::
  "AcceptContractRequest \<Rightarrow> string \<Rightarrow> timestamp \<Rightarrow> db \<Rightarrow> (error + contract) \<times> db" where
  "trader_accept_contract request email now d =
     (case get_current_user_email email d of
        Inl e \<Rightarrow> (Inl e, d)
      | Inr u \<Rightarrow>
          if u_type u \<noteq> TRADER
          then (Inl (HTTPException 403 Only_traders_can_accept_farmer_contracts), d)
          else case contracts_db d (ac_contract_id request) of
            None \<Rightarrow> (Inl (HTTPException 404 Contract_not_found), d)
          | Some contract \<Rightarrow>
              if c_created_by contract \<noteq> BY_FARMER
              then (Inl (HTTPException 400 This_is_not_a_farmer_created_contract), d)
              else if c_status contract \<noteq> PENDING
              then (Inl (HTTPException 400 Contract_is_not_pending), d)
              else
                let contract' = contract\<lparr>c_trader_id := Some (u_id u),
                                          c_status := ACTIVE,
                                          c_accepted_at := Some now,
                                          c_accepted_by := Some (u_id u)\<rparr>;
                    d' = d\<lparr>contracts_db := (contracts_db d)(ac_contract_id request \<mapsto> contract')\<rparr>
                in case products_db d' (c_product_id contract') of
                     None \<Rightarrow> (Inl (KeyError (c_product_id contract')), d')
                   | Some product \<Rightarrow>
                       (Inr contract',
                        d'\<lparr>products_db := (products_db d')(c_product_id contract' \<mapsto>
                             product\<lparr>reserved_qty := reserved_qty product - c_qty contract',
                                     committed_qty := committed_qty product + c_qty contract',
                                     available_qty := available_qty product - c_qty contract',
                                     p_updated_at := now\<rparr>)\<rparr>))"

definition farmer_accept_contract ::
  "AcceptContractRequest \<Rightarrow> string \<Rightarrow> timestamp \<Rightarrow> db \<Rightarrow> (error + contract) \<times> db" where
  "farmer_accept_contract request email now d =
     (case get_current_user_email email d of
        Inl e \<Rightarrow> (Inl e, d)
      | Inr u \<Rightarrow>
          if u_type u \<noteq> FARMER
          then (Inl (HTTPException 403 Only_farmers_can_accept_trader_contracts), d)
          else case contracts_db d (ac_contract_id request) of
            None \<Rightarrow> (Inl (HTTPException 404 Contract_not_found), d)
          | Some contract \<Rightarrow>
              if c_created_by contract \<noteq> BY_TRADER
              then (Inl (HTTPException 400 This_is_not_a_trader_created_contract), d)
              else if c_status contract \<noteq> PENDING
              then (Inl (HTTPException 400 Contract_is_not_pending), d)
              else if c_farmer_id contract \<noteq> u_id u
              then (Inl (HTTPException 403 This_contract_is_not_for_you), d)
              else case products_db d (c_product_id contract) of
                None \<Rightarrow> (Inl (KeyError (c_product_id contract)), d)
              | Some product \<Rightarrow>
                  if c_qty contract > available_qty product
                  then (Inl (HTTPException 400
                          (Insufficient_available_quantity (available_qty product) (p_unit product))), d)
                  else
                    let contract' = contract\<lparr>c_status := ACTIVE,
                                              c_accepted_at := Some now,
                                              c_accepted_by := Some (u_id u)\<rparr>
                    in (Inr contract',
                        d\<lparr>contracts_db := (contracts_db d)(ac_contract_id request \<mapsto> contract'),
                          products_db := (products_db d)(c_product_id contract \<mapsto>
                            product\<lparr>available_qty := available_qty product - c_qty contract,
                                    committed_qty := committed_qty product + c_qty contract,
                                    p_updated_at := now\<rparr>)\<rparr>))"

text \<open>The source's \<^verbatim>\<open>a or b\<close> in the role checks of reject and cancel is evaluated left to
  right; it is written as two tests with the same outcome.\<close>

definition reject_contract ::
  "RejectContractRequest \<Rightarrow> string \<Rightarrow> timestamp \<Rightarrow> db \<Rightarrow> (error + contract) \<times> db" where
  "reject_contract request email now d =
     (case get_current_user_email email d of
        Inl e \<Rightarrow> (Inl e, d)
      | Inr u \<Rightarrow>
          (case contracts_db d (rj_contract_id request) of
            None \<Rightarrow> (Inl (HTTPException 404 Contract_not_found), d)
          | Some contract \<Rightarrow>
              if c_status contract \<noteq> PENDING
              then (Inl (HTTPException 400 Contract_is_not_pending), d)
              else if c_created_by contract = BY_FARMER \<and> u_type u \<noteq> TRADER
              then (Inl (HTTPException 403 Only_traders_can_reject_farmer_contracts), d)
              else if c_created_by contract \<noteq> BY_FARMER \<and> u_type u \<noteq> FARMER
              then (Inl (HTTPException 403 Only_the_specified_farmer_can_reject_this_contract), d)
              else if c_created_by contract \<noteq> BY_FARMER \<and> c_farmer_id contract \<noteq> u_id u
              then (Inl (HTTPException 403 Only_the_specified_farmer_can_reject_this_contract), d)
              else
                let contract' = contract\<lparr>c_status := REJECTED,
                                          c_rejected_at := Some now,
                                          c_rejected_by := Some (u_id u),
                                          c_rejection_reason := Some (rj_rejection_reason request)\<rparr>;
                    d' = d\<lparr>contracts_db := (contracts_db d)(rj_contract_id request \<mapsto> contract')\<rparr>
                in if c_created_by contract' = BY_FARMER
                   then case products_db d' (c_product_id contract') of
                          None \<Rightarrow> (Inl (KeyError (c_product_id contract')), d')
                        | Some product \<Rightarrow>
                            (Inr contract',
                             d'\<lparr>products_db := (products_db d')(c_product_id contract' \<mapsto>
                                  product\<lparr>reserved_qty := reserved_qty product - c_qty contract',
                                          p_updated_at := now\<rparr>)\<rparr>)
                   else (Inr contract', d')))"

definition cancel_contract ::
  "CancelContractRequest \<Rightarrow> string \<Rightarrow> timestamp \<Rightarrow> db \<Rightarrow> (error + contract) \<times> db" where
  "cancel_contract request email now d =
     (case get_current_user_email email d of
        Inl e \<Rightarrow> (Inl e, d)
      | Inr u \<Rightarrow>
          (case contracts_db d (cn_contract_id request) of
            None \<Rightarrow> (Inl (HTTPException 404 Contract_not_found), d)
          | Some contract \<Rightarrow>
              if c_status contract \<noteq> PENDING
              then (Inl (HTTPException 400 Contract_is_not_pending), d)
              else if c_created_by contract = BY_FARMER \<and> u_type u \<noteq> FARMER
              then (Inl (HTTPException 403 Only_the_contract_creator_can_cancel_it), d)
              else if c_created_by contract = BY_FARMER \<and> c_farmer_id contract \<noteq> u_id u
              then (Inl (HTTPException 403 Only_the_contract_creator_can_cancel_it), d)
              else if c_created_by contract \<noteq> BY_FARMER \<and> u_type u \<noteq> TRADER
              then (Inl (HTTPException 403 Only_the_contract_creator_can_cancel_it), d)
              else if c_created_by contract \<noteq> BY_FARMER \<and> c_trader_id contract \<noteq> Some (u_id u)
              then (Inl (HTTPException 403 Only_the_contract_creator_can_cancel_it), d)
              else
                let contract' = contract\<lparr>c_status := CANCELLED,
                                          c_cancelled_at := Some now\<rparr>;
                    d' = d\<lparr>contracts_db := (contracts_db d)(cn_contract_id request \<mapsto> contract')\<rparr>
                in if c_created_by contract' = BY_FARMER
                   then case products_db d' (c_product_id contract') of
                          None \<Rightarrow> (Inl (KeyError (c_product_id contract')), d')
                        | Some product \<Rightarrow>
                            (Inr contract',
                             d'\<lparr>products_db := (products_db d')(c_product_id contract' \<mapsto>
                                  product\<lparr>reserved_qty := reserved_qty product - c_qty contract',
                                          p_updated_at := now\<rparr>)\<rparr>)
                   else (Inr contract', d')))"

definition complete_contract ::
  "CompleteContractRequest \<Rightarrow> string \<Rightarrow> timestamp \<Rightarrow> db \<Rightarrow> (error + contract) \<times> db" where
  "complete_contract request email now d =
     (case get_current_user_email email d of
        Inl e \<Rightarrow> (Inl e, d)
      | Inr u \<Rightarrow>
          (case contracts_db d (cm_contract_id request) of
            None \<Rightarrow> (Inl (HTTPException 404 Contract_not_found), d)
          | Some contract \<Rightarrow>
              if c_status contract \<noteq> ACTIVE
              then (Inl (HTTPException 400 Contract_is_not_active), d)
              else if u_id u \<noteq> c_farmer_id contract \<and> Some (u_id u) \<noteq> c_trader_id contract
              then (Inl (HTTPException 403 You_are_not_part_of_this_contract), d)
              else
                let contract' = contract\<lparr>c_status := COMPLETED,
                                          c_completed_at := Some now,
                                          c_completed_by := Some (CreatedBy_value (cm_completed_by request))\<rparr>;
                    d' = d\<lparr>contracts_db := (contracts_db d)(cm_contract_id request \<mapsto> contract')\<rparr>
                in case products_db d' (c_product_id contract') of
                     None \<Rightarrow> (Inl (KeyError (c_product_id contract')), d')
                   | Some product \<Rightarrow>
                       (Inr contract',
                        d'\<lparr>products_db := (products_db d')(c_product_id contract' \<mapsto>
                             product\<lparr>committed_qty := committed_qty product - c_qty contract',
                                     total_qty := total_qty product - c_qty contract',
                                     p_updated_at := now\<rparr>)\<rparr>)))"

subsection \<open>Sequences of requests\<close>

text \<open>A request to one of the endpoints, with the identifier and the clock reading the
  endpoint draws while it serves it.\<close>

datatype action =
    List_product ListProductRequest string string timestamp
  | Create_by_farmer CreateContractByFarmerRequest string string timestamp
  | Create_by_trader CreateContractByTraderRequest string string timestamp
  | Trader_accept AcceptContractRequest string timestamp
  | Farmer_accept AcceptContractRequest string timestamp
  | Reject RejectContractRequest string timestamp
  | Cancel CancelContractRequest string timestamp
  | Complete CompleteContractRequest string timestamp

definition outcome :: "(error + 'a) \<times> db \<Rightarrow> error option \<times> db" where
  "outcome r = (case fst r of Inl e \<Rightarrow> Some e | Inr v \<Rightarrow> None, snd r)"

fun call :: "action \<Rightarrow> db \<Rightarrow> error option \<times> db" where
  "call (List_product r e i t) d = outcome (list_product r e i t d)"
| "call (Create_by_farmer r e i t) d = outcome (create_contract_by_farmer r e i t d)"
| "call (Create_by_trader r e i t) d = outcome (create_contract_by_trader r e i t d)"
| "call (Trader_accept r e t) d = outcome (trader_accept_contract r e t d)"
| "call (Farmer_accept r e t) d = outcome (farmer_accept_contract r e t d)"
| "call (Reject r e t) d = outcome (reject_contract r e t d)"
| "call (Cancel r e t) d = outcome (cancel_contract r e t d)"
| "call (Complete r e t) d = outcome (complete_contract r e t d)"

definition step :: "action \<Rightarrow> db \<Rightarrow> db" where
  "step a d = snd (call a d)"

fun run :: "action list \<Rightarrow> db \<Rightarrow> db" where
  "run [] d = d"
| "run (a # as) d = run as (step a d)"

text \<open>The responses of a sequence of requests: \<open>None\<close> for a success, the error otherwise.\<close>

fun responses :: "action list \<Rightarrow> db \<Rightarrow> error option list" where
  "responses [] d = []"
| "responses (a # as) d = fst (call a d) # responses as (step a d)"

text \<open>A UUID that \<^verbatim>\<open>generate_id()\<close> returns is taken to be new: no product (for a listing)
  and no contract (for a proposal) is stored under it yet.\<close>

fun fresh :: "action \<Rightarrow> db \<Rightarrow> bool" where
  "fresh (List_product r e i t) d = (products_db d i = None)"
| "fresh (Create_by_farmer r e i t) d = (contracts_db d i = None)"
| "fresh (Create_by_trader r e i t) d = (contracts_db d i = None)"
| "fresh (Trader_accept r e t) d = True"
| "fresh (Farmer_accept r e t) d = True"
| "fresh (Reject r e t) d = True"
| "fresh (Cancel r e t) d = True"
| "fresh (Complete r e t) d = True"

fun fresh_run :: "action list \<Rightarrow> db \<Rightarrow> bool" where
  "fresh_run [] d = True"
| "fresh_run (a # as) d = (fresh a d \<and> fresh_run as (step a d))"

subsection \<open>Propose-and-release cycles\<close>







subsection \<open>The order of the statuses\<close>

text \<open>\<open>later_status s s'\<close>: a contract in status \<open>s\<close> may be found in status \<open>s'\<close> afterwards.
  PENDING may become anything, ACTIVE only COMPLETED, and the other three nothing else.\<close>

definition later_status :: "ContractStatus \<Rightarrow> ContractStatus \<Rightarrow> bool" where
  "later_status s s' \<longleftrightarrow> s' = s \<or> s = PENDING \<or> (s = ACTIVE \<and> s' = COMPLETED)"

subsection \<open>A small database for the examples\<close>

definition farmer1 :: user where
  "farmer1 = \<lparr>u_id = ''f1'', u_email = ''farmer1@test.com'', u_type = FARMER, u_name = ''Rajesh Kumar''\<rparr>"

definition trader1 :: user where
  "trader1 = \<lparr>u_id = ''t1'', u_email = ''trader1@test.com'', u_type = TRADER, u_name = ''Arun Traders Pvt Ltd''\<rparr>"

text \<open>Two logged-in users, no product, no contract.\<close>

definition db0 :: db where
  "db0 = \<lparr>users_db = [''f1'' \<mapsto> farmer1, ''t1'' \<mapsto> trader1],
          products_db = Map.empty,
          contracts_db = Map.empty,
          sessions = [''farmer1@test.com'' \<mapsto> ''f1'', ''trader1@test.com'' \<mapsto> ''t1'']\<rparr>"

text \<open>A listing of 1000 kg of soybean, as \<^verbatim>\<open>list_product\<close> stores it.\<close>

definition soy1000 :: product where
  "soy1000 = \<lparr>p_id = ''p1'', p_farmer_id = ''f1'', p_type = SOYBEAN, total_qty = 1000,
              available_qty = 1000, reserved_qty = 0, committed_qty = 0, p_unit = KG,
              is_active = True, p_created_at = ''d0'', p_updated_at = ''d0''\<rparr>"

definition db1 :: db where
  "db1 = db0\<lparr>products_db := [''p1'' \<mapsto> soy1000]\<rparr>"

text \<open>The farmer lists 1000 kg; the trader offers to buy 900 and, separately, 300; the
  farmer accepts the first offer, which leaves 100 available.\<close>

definition low_stock_trace :: "action list" where
  "low_stock_trace =
     [List_product \<lparr>lp_type = SOYBEAN, lp_qty = 1000, lp_unit = KG\<rparr> ''farmer1@test.com'' ''p1'' ''d0'',
      Create_by_trader \<lparr>ct_farmer_id = ''f1'', ct_product_id = ''p1'', ct_price_per_unit = 50,
          ct_qty = 900, ct_unit = KG, ct_expected_delivery_date = None, ct_notes = None\<rparr>
        ''trader1@test.com'' ''c0'' ''d1'',
      Create_by_trader \<lparr>ct_farmer_id = ''f1'', ct_product_id = ''p1'', ct_price_per_unit = 50,
          ct_qty = 300, ct_unit = KG, ct_expected_delivery_date = None, ct_notes = None\<rparr>
        ''trader1@test.com'' ''c1'' ''d2'',
      Farmer_accept \<lparr>ac_contract_id = ''c0''\<rparr> ''farmer1@test.com'' ''d3'']"

text \<open>The farmer lists 1000 kg; the trader offers to buy all of it; the farmer proposes
  to sell all of it; the farmer accepts the trader's offer; the trader accepts the
  farmer's proposal.\<close>

definition oversell_trace :: "action list" where
  "oversell_trace =
     [List_product \<lparr>lp_type = SOYBEAN, lp_qty = 1000, lp_unit = KG\<rparr> ''farmer1@test.com'' ''p1'' ''d0'',
      Create_by_trader \<lparr>ct_farmer_id = ''f1'', ct_product_id = ''p1'', ct_price_per_unit = 50,
          ct_qty = 1000, ct_unit = KG, ct_expected_delivery_date = None, ct_notes = None\<rparr>
        ''trader1@test.com'' ''c1'' ''d1'',
      Create_by_farmer \<lparr>cf_product_id = ''p1'', cf_price_per_unit = 50, cf_qty = 1000,
          cf_unit = KG, cf_expected_delivery_date = None, cf_notes = None\<rparr>
        ''farmer1@test.com'' ''c2'' ''d2'',
      Farmer_accept \<lparr>ac_contract_id = ''c1''\<rparr> ''farmer1@test.com'' ''d3'',
      Trader_accept \<lparr>ac_contract_id = ''c2''\<rparr> ''trader1@test.com'' ''d4'']"

text \<open>A proposal and an offer of 300 in tonnes, against the listing in kg.\<close>

definition req300 :: CreateContractByFarmerRequest where
  "req300 = \<lparr>cf_product_id = ''p1'', cf_price_per_unit = 50, cf_qty = 300, cf_unit = TONNE,
             cf_expected_delivery_date = None, cf_notes = None\<rparr>"

definition offer300 :: CreateContractByTraderRequest where
  "offer300 = \<lparr>ct_farmer_id = ''f1'', ct_product_id = ''p1'', ct_price_per_unit = 50,
               ct_qty = 300, ct_unit = TONNE, ct_expected_delivery_date = None, ct_notes = None\<rparr>"

text \<open>The farmer lists 1000 kg; the trader's offer is stored as \<open>c1\<close>, the farmer's
  proposal as \<open>c2\<close>; both are PENDING.\<close>

definition pending_trace :: "action list" where
  "pending_trace =
     [List_product \<lparr>lp_type = SOYBEAN, lp_qty = 1000, lp_unit = KG\<rparr> ''farmer1@test.com'' ''p1'' ''d0'',
      Create_by_trader offer300 ''trader1@test.com'' ''c1'' ''d1'',
      Create_by_farmer req300 ''farmer1@test.com'' ''c2'' ''d2'']"

definition db_pending :: db where
  "db_pending = run pending_trace db0"

text \<open>Then the trader accepts the proposal and the farmer the offer: both are ACTIVE.\<close>

definition db_active :: db where
  "db_active = run [Trader_accept \<lparr>ac_contract_id = ''c2''\<rparr> ''trader1@test.com'' ''d3'',
                    Farmer_accept \<lparr>ac_contract_id = ''c1''\<rparr> ''farmer1@test.com'' ''d4''] db_pending"

text \<open>The farmer's proposal as \<open>pending_trace\<close> stores it.\<close>

definition proposal_c2 :: contract where
  "proposal_c2 = \<lparr>c_id = ''c2'', c_farmer_id = ''f1'', c_trader_id = None, c_product_id = ''p1'',
      c_product_type = SOYBEAN, c_price_per_unit = 50, c_qty = 300, c_unit = TONNE,
      c_total_value = 15000, c_status = PENDING, c_created_by = BY_FARMER, c_created_at = ''d2'',
      c_accepted_at = None, c_accepted_by = None, c_completed_at = None, c_rejected_at = None,
      c_cancelled_at = None, c_expected_delivery_date = None, c_notes = None,
      c_rejected_by = None, c_rejection_reason = None, c_completed_by = None\<rparr>"

text \<open>A database written by hand, which no sequence of requests produces: the proposal
  for 300 is pending while the listing has only 100 reserved.\<close>

definition db_short :: db where
  "db_short = db1\<lparr>products_db := [''p1'' \<mapsto> soy1000\<lparr>reserved_qty := 100\<rparr>],
                  contracts_db := [''c2'' \<mapsto> proposal_c2]\<rparr>"

text \<open>A database written by hand with a listing whose \<^verbatim>\<open>is_active\<close> is false; no
  endpoint of the source writes that value.\<close>

definition db_inactive :: db where
  "db_inactive = db1\<lparr>products_db := [''p1'' \<mapsto> soy1000\<lparr>is_active := False\<rparr>]\<rparr>"

text \<open>Requests that try to move the accepted proposal \<open>c2\<close> again; none of them creates
  anything.\<close>

definition late_requests :: "action list" where
  "late_requests =
     [Reject \<lparr>rj_contract_id = ''c2'', rj_rejection_reason = None\<rparr> ''trader1@test.com'' ''d5'',
      Cancel \<lparr>cn_contract_id = ''c2''\<rparr> ''farmer1@test.com'' ''d6'',
      Complete \<lparr>cm_contract_id = ''c2'', cm_completed_by = BY_FARMER\<rparr> ''farmer1@test.com'' ''d7'',
      Trader_accept \<lparr>ac_contract_id = ''c2''\<rparr> ''trader1@test.com'' ''d8'',
      Reject \<lparr>rj_contract_id = ''c2'', rj_rejection_reason = None\<rparr> ''trader1@test.com'' ''d9'',
      Cancel \<lparr>cn_contract_id = ''c2''\<rparr> ''farmer1@test.com'' ''d10'']"

section \<open>Properties\<close>

subsection \<open>What a successful call has checked and written\<close>

lemmas endpoint_defs =
  get_current_user_email_def list_product_def create_contract_by_farmer_def
  create_contract_by_trader_def trader_accept_contract_def farmer_accept_contract_def
  reject_contract_def cancel_contract_def complete_contract_def

lemmas example_defs =
  farmer1_def trader1_def db0_def db1_def soy1000_def step_def outcome_def
  req300_def offer300_def pending_trace_def db_pending_def db_active_def
  proposal_c2_def db_short_def db_inactive_def late_requests_def

lemma trader_accept_success:
  assumes "trader_accept_contract r e t d = (Inr c', d')"
  shows "\<exists>u c p. get_current_user_email e d = Inr u \<and> u_type u = TRADER
           \<and> contracts_db d (ac_contract_id r) = Some c
           \<and> c_created_by c = BY_FARMER \<and> c_status c = PENDING
           \<and> products_db d (c_product_id c) = Some p
           \<and> c' = c\<lparr>c_trader_id := Some (u_id u), c_status := ACTIVE,
                     c_accepted_at := Some t, c_accepted_by := Some (u_id u)\<rparr>
           \<and> d' = d\<lparr>contracts_db := (contracts_db d)(ac_contract_id r \<mapsto> c'),
                     products_db := (products_db d)(c_product_id c \<mapsto>
                        p\<lparr>reserved_qty := reserved_qty p - c_qty c,
                          committed_qty := committed_qty p + c_qty c,
                          available_qty := available_qty p - c_qty c,
                          p_updated_at := t\<rparr>)\<rparr>"
  using assms
  by (auto simp: trader_accept_contract_def Let_def split: sum.splits option.splits if_splits)

lemma farmer_accept_success:
  assumes "farmer_accept_contract r e t d = (Inr c', d')"
  shows "\<exists>u c p. get_current_user_email e d = Inr u \<and> u_type u = FARMER
           \<and> contracts_db d (ac_contract_id r) = Some c
           \<and> c_created_by c = BY_TRADER \<and> c_status c = PENDING \<and> c_farmer_id c = u_id u
           \<and> products_db d (c_product_id c) = Some p \<and> c_qty c \<le> available_qty p
           \<and> c' = c\<lparr>c_status := ACTIVE, c_accepted_at := Some t, c_accepted_by := Some (u_id u)\<rparr>
           \<and> d' = d\<lparr>contracts_db := (contracts_db d)(ac_contract_id r \<mapsto> c'),
                     products_db := (products_db d)(c_product_id c \<mapsto>
                        p\<lparr>available_qty := available_qty p - c_qty c,
                          committed_qty := committed_qty p + c_qty c,
                          p_updated_at := t\<rparr>)\<rparr>"
  using assms
  by (auto simp: farmer_accept_contract_def Let_def split: sum.splits option.splits if_splits)

lemma reject_success:
  assumes "reject_contract r e t d = (Inr c', d')"
  shows "\<exists>u c. get_current_user_email e d = Inr u
           \<and> contracts_db d (rj_contract_id r) = Some c \<and> c_status c = PENDING
           \<and> c' = c\<lparr>c_status := REJECTED, c_rejected_at := Some t,
                     c_rejected_by := Some (u_id u),
                     c_rejection_reason := Some (rj_rejection_reason r)\<rparr>
           \<and> (if c_created_by c = BY_FARMER
               then u_type u = TRADER \<and> (\<exists>p. products_db d (c_product_id c) = Some p \<and>
                 d' = d\<lparr>contracts_db := (contracts_db d)(rj_contract_id r \<mapsto> c'),
                     products_db := (products_db d)(c_product_id c \<mapsto>
                        p\<lparr>reserved_qty := reserved_qty p - c_qty c, p_updated_at := t\<rparr>)\<rparr>)
               else u_type u = FARMER \<and> c_farmer_id c = u_id u \<and>
                 d' = d\<lparr>contracts_db := (contracts_db d)(rj_contract_id r \<mapsto> c')\<rparr>)"
  using assms
  by (auto simp: reject_contract_def Let_def split: sum.splits option.splits if_splits)

lemma cancel_success:
  assumes "cancel_contract r e t d = (Inr c', d')"
  shows "\<exists>u c. get_current_user_email e d = Inr u
           \<and> contracts_db d (cn_contract_id r) = Some c \<and> c_status c = PENDING
           \<and> c' = c\<lparr>c_status := CANCELLED, c_cancelled_at := Some t\<rparr>
           \<and> (if c_created_by c = BY_FARMER
               then u_type u = FARMER \<and> c_farmer_id c = u_id u
                 \<and> (\<exists>p. products_db d (c_product_id c) = Some p \<and>
                 d' = d\<lparr>contracts_db := (contracts_db d)(cn_contract_id r \<mapsto> c'),
                     products_db := (products_db d)(c_product_id c \<mapsto>
                        p\<lparr>reserved_qty := reserved_qty p - c_qty c, p_updated_at := t\<rparr>)\<rparr>)
               else u_type u = TRADER \<and> c_trader_id c = Some (u_id u) \<and>
                 d' = d\<lparr>contracts_db := (contracts_db d)(cn_contract_id r \<mapsto> c')\<rparr>)"
  using assms
  by (auto simp: cancel_contract_def Let_def split: sum.splits option.splits if_splits)

lemma complete_success:
  assumes "complete_contract r e t d = (Inr c', d')"
  shows "\<exists>u c p. get_current_user_email e d = Inr u
           \<and> contracts_db d (cm_contract_id r) = Some c \<and> c_status c = ACTIVE
           \<and> (u_id u = c_farmer_id c \<or> Some (u_id u) = c_trader_id c)
           \<and> products_db d (c_product_id c) = Some p
           \<and> c' = c\<lparr>c_status := COMPLETED, c_completed_at := Some t,
                     c_completed_by := Some (CreatedBy_value (cm_completed_by r))\<rparr>
           \<and> d' = d\<lparr>contracts_db := (contracts_db d)(cm_contract_id r \<mapsto> c'),
                     products_db := (products_db d)(c_product_id c \<mapsto>
                        p\<lparr>committed_qty := committed_qty p - c_qty c,
                          total_qty := total_qty p - c_qty c,
                          p_updated_at := t\<rparr>)\<rparr>"
  using assms
  by (auto simp: complete_contract_def Let_def split: sum.splits option.splits if_splits)

subsection \<open>C1: the counters after an offer and a proposal on the same stock\<close>

text \<open>
  C1 says that in every state reached from a freshly listed product the counters satisfy
  \<open>available_qty \<ge> 0\<close>, \<open>reserved_qty \<ge> 0\<close>, \<open>committed_qty \<ge> 0\<close> and
  \<open>total_qty \<ge> committed_qty\<close>. The five requests of \<open>oversell_trace\<close>, each with a new
  identifier, all succeed and leave the listing with \<open>available_qty = -1000\<close> and
  \<open>committed_qty = 2000\<close> against \<open>total_qty = 1000\<close>: \<^verbatim>\<open>farmer_accept_contract\<close>
  compares the quantity with \<open>available_qty\<close> alone, where \<^verbatim>\<open>create_contract_by_farmer\<close>
  subtracts \<open>reserved_qty\<close> first, so it hands out stock that a pending proposal of the
  farmer has reserved, and \<^verbatim>\<open>trader_accept_contract\<close> then commits that stock again.
\<close>

theorem oversell_trace_breaks_counters:
  "fresh_run oversell_trace db0
   \<and> responses oversell_trace db0 = [None, None, None, None, None]
   \<and> products_db (run oversell_trace db0) ''p1'' =
       Some (soy1000\<lparr>total_qty := 1000, available_qty := - 1000, reserved_qty := 0,
                     committed_qty := 2000, p_updated_at := ''d4''\<rparr>)"
  by (simp add: oversell_trace_def endpoint_defs example_defs Let_def)

subsection \<open>C2: accepting an offer that the stock no longer covers\<close>

text \<open>
  C2: when the named farmer accepts a trader-created PENDING contract whose quantity
  exceeds the listing's \<open>available_qty\<close>, the call fails with the 400 "Insufficient
  available quantity" error and returns the database it was given: the contract is still
  PENDING and no counter and no contract field has changed.
\<close>

theorem farmer_accept_insufficient_quantity:
  assumes "sessions d email = Some uid" and "users_db d uid = Some u" and "u_type u = FARMER"
    and "contracts_db d (ac_contract_id request) = Some c"
    and "c_created_by c = BY_TRADER" and "c_status c = PENDING" and "c_farmer_id c = u_id u"
    and "products_db d (c_product_id c) = Some p"
    and "available_qty p < c_qty c"
  shows "farmer_accept_contract request email now d =
           (Inl (HTTPException 400 (Insufficient_available_quantity (available_qty p) (p_unit p))), d)
         \<and> map_option c_status
             (contracts_db (snd (farmer_accept_contract request email now d)) (ac_contract_id request))
           = Some PENDING"
  using assms by (simp add: farmer_accept_contract_def get_current_user_email_def)

theorem farmer_accept_insufficient_quantity_witness:
  "map_option available_qty (products_db (run low_stock_trace db0) ''p1'') = Some 100
   \<and> map_option c_qty (contracts_db (run low_stock_trace db0) ''c1'') = Some 300
   \<and> farmer_accept_contract \<lparr>ac_contract_id = ''c1''\<rparr> ''farmer1@test.com'' ''d4''
        (run low_stock_trace db0)
      = (Inl (HTTPException 400 (Insufficient_available_quantity 100 KG)), run low_stock_trace db0)
   \<and> map_option c_status (contracts_db (snd (farmer_accept_contract \<lparr>ac_contract_id = ''c1''\<rparr>
        ''farmer1@test.com'' ''d4'' (run low_stock_trace db0))) ''c1'') = Some PENDING"
proof -
  let ?d = "run low_stock_trace db0"
  have s: "sessions ?d ''farmer1@test.com'' = Some ''f1''" "users_db ?d ''f1'' = Some farmer1"
    by (simp_all add: low_stock_trace_def endpoint_defs example_defs Let_def)
  obtain c where c: "contracts_db ?d ''c1'' = Some c" "c_created_by c = BY_TRADER"
      "c_status c = PENDING" "c_farmer_id c = ''f1''" "c_product_id c = ''p1''" "c_qty c = 300"
    by (simp add: low_stock_trace_def endpoint_defs example_defs Let_def)
  obtain p where p: "products_db ?d ''p1'' = Some p" "available_qty p = 100" "p_unit p = KG"
    by (simp add: low_stock_trace_def endpoint_defs example_defs Let_def)
  have "farmer_accept_contract \<lparr>ac_contract_id = ''c1''\<rparr> ''farmer1@test.com'' ''d4'' ?d =
           (Inl (HTTPException 400 (Insufficient_available_quantity (available_qty p) (p_unit p))), ?d)
         \<and> map_option c_status (contracts_db (snd (farmer_accept_contract \<lparr>ac_contract_id = ''c1''\<rparr>
              ''farmer1@test.com'' ''d4'' ?d)) (ac_contract_id \<lparr>ac_contract_id = ''c1''\<rparr>))
           = Some PENDING"
    by (rule farmer_accept_insufficient_quantity [where uid = "''f1''" and u = farmer1 and c = c])
       (simp_all add: s c p farmer1_def)
  then show ?thesis using c p by simp
qed

subsection \<open>C3: propose 300 of 1000, accept, complete\<close>

text \<open>
  C3: on a listing with \<open>total_qty = available_qty = 1000\<close> and
  \<open>reserved_qty = committed_qty = 0\<close>, the owner's proposal for 300 succeeds and sets
  \<open>reserved_qty = 300\<close>, the other counters unchanged; a trader's acceptance of it succeeds
  and gives \<open>reserved_qty = 0\<close>, \<open>available_qty = 700\<close>, \<open>committed_qty = 300\<close>; its
  completion by either party succeeds and gives \<open>committed_qty = 0\<close>, \<open>total_qty = 700\<close>,
  \<open>available_qty = 700\<close>. Besides the counters only \<^verbatim>\<open>updated_at\<close> of the listing changes.
\<close>

theorem propose_accept_complete_scenario:
  fixes cid t1 t2 t3 role
  assumes "sessions d ef = Some fid" and "users_db d fid = Some uf" and "u_type uf = FARMER"
    and "sessions d et = Some tid" and "users_db d tid = Some ut" and "u_type ut = TRADER"
    and "products_db d (cf_product_id r) = Some p" and "p_farmer_id p = u_id uf"
    and "total_qty p = 1000" and "available_qty p = 1000"
    and "reserved_qty p = 0" and "committed_qty p = 0"
    and "cf_qty r = 300" and "0 < cf_price_per_unit r"
    and "e3 = ef \<or> e3 = et"
  defines "s1 \<equiv> create_contract_by_farmer r ef cid t1 d"
  defines "s2 \<equiv> trader_accept_contract \<lparr>ac_contract_id = cid\<rparr> et t2 (snd s1)"
  defines "s3 \<equiv> complete_contract \<lparr>cm_contract_id = cid, cm_completed_by = role\<rparr> e3 t3 (snd s2)"
  shows "(\<exists>c. fst s1 = Inr c \<and> c_status c = PENDING)
       \<and> products_db (snd s1) (cf_product_id r) = Some (p\<lparr>reserved_qty := 300, p_updated_at := t1\<rparr>)
       \<and> (\<exists>c. fst s2 = Inr c \<and> c_status c = ACTIVE)
       \<and> products_db (snd s2) (cf_product_id r) =
           Some (p\<lparr>reserved_qty := 0, available_qty := 700, committed_qty := 300, p_updated_at := t2\<rparr>)
       \<and> (\<exists>c. fst s3 = Inr c \<and> c_status c = COMPLETED)
       \<and> products_db (snd s3) (cf_product_id r) =
           Some (p\<lparr>reserved_qty := 0, available_qty := 700, committed_qty := 0, total_qty := 700,
                   p_updated_at := t3\<rparr>)"
proof -
  let ?c1 = "\<lparr> c_id = cid, c_farmer_id = u_id uf, c_trader_id = None,
                 c_product_id = cf_product_id r, c_product_type = p_type p,
                 c_price_per_unit = cf_price_per_unit r, c_qty = 300, c_unit = cf_unit r,
                 c_total_value = cf_price_per_unit r * 300, c_status = PENDING,
                 c_created_by = BY_FARMER, c_created_at = t1, c_accepted_at = None,
                 c_accepted_by = None, c_completed_at = None, c_rejected_at = None,
                 c_cancelled_at = None, c_expected_delivery_date = cf_expected_delivery_date r,
                 c_notes = cf_notes r, c_rejected_by = None, c_rejection_reason = None,
                 c_completed_by = None \<rparr>"
  let ?c2 = "?c1\<lparr>c_trader_id := Some (u_id ut), c_status := ACTIVE,
                   c_accepted_at := Some t2, c_accepted_by := Some (u_id ut)\<rparr>"
  have r1: "s1 = (Inr ?c1,
            d\<lparr>contracts_db := (contracts_db d)(cid \<mapsto> ?c1),
              products_db := (products_db d)(cf_product_id r \<mapsto>
                 p\<lparr>reserved_qty := 300, p_updated_at := t1\<rparr>)\<rparr>)"
    using assms(1-14) unfolding s1_def
    by (simp add: create_contract_by_farmer_def get_current_user_email_def Let_def)
  have q2: "fst s2 = Inr ?c2"
    and r2: "sessions (snd s2) = sessions d" "users_db (snd s2) = users_db d"
      "contracts_db (snd s2) cid = Some ?c2"
      "products_db (snd s2) (cf_product_id r) =
           Some (p\<lparr>reserved_qty := 0, available_qty := 700, committed_qty := 300, p_updated_at := t2\<rparr>)"
    using assms(1-14) unfolding s2_def r1
    by (simp_all add: trader_accept_contract_def get_current_user_email_def Let_def)
  have r3: "\<exists>c. fst s3 = Inr c \<and> c_status c = COMPLETED"
     "products_db (snd s3) (cf_product_id r) =
           Some (p\<lparr>reserved_qty := 0, available_qty := 700, committed_qty := 0, total_qty := 700,
                   p_updated_at := t3\<rparr>)"
    using assms(1-15) r2 unfolding s3_def
    by (auto simp add: complete_contract_def get_current_user_email_def Let_def)
  show ?thesis using r1 q2 r2 r3 by simp
qed

theorem propose_accept_complete_scenario_witness:
  "products_db db1 ''p1'' = Some soy1000
   \<and> total_qty soy1000 = 1000 \<and> available_qty soy1000 = 1000
   \<and> reserved_qty soy1000 = 0 \<and> committed_qty soy1000 = 0
   \<and> products_db (run [Create_by_farmer req300 ''farmer1@test.com'' ''c1'' ''d1''] db1) ''p1''
       = Some (soy1000\<lparr>reserved_qty := 300, p_updated_at := ''d1''\<rparr>)
   \<and> products_db (run [Create_by_farmer req300 ''farmer1@test.com'' ''c1'' ''d1'',
                        Trader_accept \<lparr>ac_contract_id = ''c1''\<rparr> ''trader1@test.com'' ''d2''] db1) ''p1''
       = Some (soy1000\<lparr>reserved_qty := 0, available_qty := 700, committed_qty := 300,
                      p_updated_at := ''d2''\<rparr>)
   \<and> products_db (run [Create_by_farmer req300 ''farmer1@test.com'' ''c1'' ''d1'',
                        Trader_accept \<lparr>ac_contract_id = ''c1''\<rparr> ''trader1@test.com'' ''d2'',
                        Complete \<lparr>cm_contract_id = ''c1'', cm_completed_by = BY_TRADER\<rparr>
                          ''trader1@test.com'' ''d3''] db1) ''p1''
       = Some (soy1000\<lparr>reserved_qty := 0, available_qty := 700, committed_qty := 0,
                      total_qty := 700, p_updated_at := ''d3''\<rparr>)"
  using propose_accept_complete_scenario
    [where d = db1 and ef = "''farmer1@test.com''" and fid = "''f1''" and uf = farmer1
       and et = "''trader1@test.com''" and tid = "''t1''" and ut = trader1
       and r = req300 and p = soy1000 and ?e3.0 = "''trader1@test.com''"
       and cid = "''c1''" and ?t1.0 = "''d1''" and ?t2.0 = "''d2''" and ?t3.0 = "''d3''"
       and role = BY_TRADER]
  by (simp add: example_defs)

subsection \<open>C4: a rejected or cancelled proposal gives its reservation back\<close>





subsection \<open>C5: a contract is accepted once\<close>

lemma trader_accept_not_pending:
  assumes "contracts_db d (ac_contract_id r) = Some c" and "c_status c \<noteq> PENDING"
  shows "\<exists>err. trader_accept_contract r e t d = (Inl err, d)"
  using assms
  by (auto simp: trader_accept_contract_def split: sum.splits)

lemma farmer_accept_not_pending:
  assumes "contracts_db d (ac_contract_id r) = Some c" and "c_status c \<noteq> PENDING"
  shows "\<exists>err. farmer_accept_contract r e t d = (Inl err, d)"
  using assms
  by (auto simp: farmer_accept_contract_def split: sum.splits)

lemma reject_not_pending:
  assumes "contracts_db d (rj_contract_id r) = Some c" and "c_status c \<noteq> PENDING"
  shows "\<exists>err. reject_contract r e t d = (Inl err, d)"
  using assms
  by (auto simp: reject_contract_def split: sum.splits)

lemma cancel_not_pending:
  assumes "contracts_db d (cn_contract_id r) = Some c" and "c_status c \<noteq> PENDING"
  shows "\<exists>err. cancel_contract r e t d = (Inl err, d)"
  using assms
  by (auto simp: cancel_contract_def split: sum.splits)

lemma complete_not_active:
  assumes "contracts_db d (cm_contract_id r) = Some c" and "c_status c \<noteq> ACTIVE"
  shows "\<exists>err. complete_contract r e t d = (Inl err, d)"
  using assms
  by (auto simp: complete_contract_def split: sum.splits)




subsection \<open>C6: the release of a reservation is not guarded\<close>




subsection \<open>C7: what a trader's proposal requires of the listing\<close>






subsection \<open>C9: ACTIVE moves only to COMPLETED, and a terminal status stays\<close>

lemma step_status:
  assumes "fresh a d" and "contracts_db d cid = Some c"
  shows "\<exists>c'. contracts_db (step a d) cid = Some c' \<and> later_status (c_status c) (c_status c')"
proof (cases a)
  case (List_product r e i t)
  then show ?thesis using assms
    by (auto simp: step_def outcome_def later_status_def list_product_def Let_def split: sum.splits)
next
  case (Create_by_farmer r e i t)
  then show ?thesis using assms
    by (auto simp: step_def outcome_def later_status_def create_contract_by_farmer_def Let_def
        split: sum.splits option.splits)
next
  case (Create_by_trader r e i t)
  then show ?thesis using assms
    by (auto simp: step_def outcome_def later_status_def create_contract_by_trader_def Let_def
        split: sum.splits option.splits)
next
  case (Trader_accept r e t)
  then show ?thesis using assms
    by (auto simp: step_def outcome_def later_status_def trader_accept_contract_def Let_def
        split: sum.splits option.splits)
next
  case (Farmer_accept r e t)
  then show ?thesis using assms
    by (auto simp: step_def outcome_def later_status_def farmer_accept_contract_def Let_def
        split: sum.splits option.splits)
next
  case (Reject r e t)
  then show ?thesis using assms
    by (auto simp: step_def outcome_def later_status_def reject_contract_def Let_def
        split: sum.splits option.splits)
next
  case (Cancel r e t)
  then show ?thesis using assms
    by (auto simp: step_def outcome_def later_status_def cancel_contract_def Let_def
        split: sum.splits option.splits)
next
  case (Complete r e t)
  then show ?thesis using assms
    by (auto simp: step_def outcome_def later_status_def complete_contract_def Let_def
        split: sum.splits option.splits)
qed

lemma later_status_trans: "later_status a b \<Longrightarrow> later_status b c \<Longrightarrow> later_status a c"
  by (auto simp: later_status_def)

lemma run_status:
  assumes "fresh_run as d" and "contracts_db d cid = Some c"
  shows "\<exists>c'. contracts_db (run as d) cid = Some c' \<and> later_status (c_status c) (c_status c')"
  using assms
proof (induction as arbitrary: d c)
  case Nil
  then show ?case by (simp add: later_status_def)
next
  case (Cons a as)
  from Cons.prems have f: "fresh a d" "fresh_run as (step a d)" by simp_all
  from step_status [OF f(1) Cons.prems(2)] obtain c1 where
    c1: "contracts_db (step a d) cid = Some c1" "later_status (c_status c) (c_status c1)" by blast
  from Cons.IH [OF f(2) c1(1)] obtain c2 where
    "contracts_db (run as (step a d)) cid = Some c2" "later_status (c_status c1) (c_status c2)"
    by blast
  then show ?case using c1(2) later_status_trans by auto
qed

text \<open>
  C9: take any database, any contract in it, and any sequence of requests to the
  endpoints in which every generated identifier is new. After the sequence the contract
  is still stored; if it was ACTIVE it is ACTIVE or COMPLETED, and if it was REJECTED,
  CANCELLED or COMPLETED its status is what it was. A single request is the sequence of
  length one. (An identifier that \<^verbatim>\<open>generate_id()\<close> returned twice would overwrite the
  stored contract with a new PENDING one; a UUID is taken not to repeat.)
\<close>

theorem status_never_moves_back:
  assumes "fresh_run as d" and "contracts_db d cid = Some c"
  shows "\<exists>c'. contracts_db (run as d) cid = Some c'
     \<and> (c_status c = ACTIVE \<longrightarrow> c_status c' = ACTIVE \<or> c_status c' = COMPLETED)
     \<and> (c_status c = REJECTED \<or> c_status c = CANCELLED \<or> c_status c = COMPLETED
          \<longrightarrow> c_status c' = c_status c)"
  using run_status [OF assms] by (auto simp: later_status_def)

theorem status_never_moves_back_witness:
  "fresh_run late_requests db_active
   \<and> map_option c_status (contracts_db db_active ''c2'') = Some ACTIVE
   \<and> map_option c_status (contracts_db (run late_requests db_active) ''c2'') = Some COMPLETED
   \<and> fresh_run late_requests (run late_requests db_active)
   \<and> map_option c_status (contracts_db (run late_requests (run late_requests db_active)) ''c2'')
       = Some COMPLETED"
proof -
  let ?d = "run late_requests db_active"
  have f: "fresh_run late_requests db_active" "fresh_run late_requests ?d"
    by (simp_all add: late_requests_def)
  obtain c where c: "contracts_db db_active ''c2'' = Some c" "c_status c = ACTIVE"
    by (simp add: endpoint_defs example_defs Let_def)
  obtain c1 where c1: "contracts_db ?d ''c2'' = Some c1" "c_status c1 = COMPLETED"
    by (simp add: endpoint_defs example_defs Let_def)
  from status_never_moves_back [OF f(2) c1(1)] c1(2)
  have "map_option c_status (contracts_db (run late_requests ?d) ''c2'') = Some COMPLETED"
    by auto
  moreover from status_never_moves_back [OF f(1) c(1)] c(2)
  have "\<exists>c'. contracts_db ?d ''c2'' = Some c' \<and> (c_status c' = ACTIVE \<or> c_status c' = COMPLETED)"
    by auto
  ultimately show ?thesis using f c c1 by simp
qed

subsection \<open>C10: the unit of a contract is stored and never compared\<close>



subsection \<open>C8: what a transition writes, and what it refuses\<close>

text \<open>
  C8 says that every successful transition writes its timestamp and the acting party's
  user id onto the contract. Cancelling writes no user id: the farmer's cancel of the
  pending proposal changes \<^verbatim>\<open>status\<close> and \<^verbatim>\<open>cancelled_at\<close> and nothing else. Completing
  writes the role that the request names, not the caller's id, and does not compare that
  role with the caller: the trader \<open>t1\<close> completes \<open>c2\<close> naming the role \<open>farmer\<close>, and
  \<^verbatim>\<open>completed_by\<close> is \<open>farmer\<close>.
\<close>

theorem cancel_and_complete_stamp_counterexample:
  "contracts_db db_pending ''c2'' = Some proposal_c2
   \<and> fst (call (Cancel \<lparr>cn_contract_id = ''c2''\<rparr> ''farmer1@test.com'' ''d5'') db_pending) = None
   \<and> contracts_db (step (Cancel \<lparr>cn_contract_id = ''c2''\<rparr> ''farmer1@test.com'' ''d5'') db_pending) ''c2''
       = Some (proposal_c2\<lparr>c_status := CANCELLED, c_cancelled_at := Some ''d5''\<rparr>)
   \<and> get_current_user_email ''trader1@test.com'' db_active = Inr trader1
   \<and> u_id trader1 = ''t1''
   \<and> fst (call (Complete \<lparr>cm_contract_id = ''c2'', cm_completed_by = BY_FARMER\<rparr>
              ''trader1@test.com'' ''d5'') db_active) = None
   \<and> map_option c_completed_by (contracts_db (step (Complete \<lparr>cm_contract_id = ''c2'',
              cm_completed_by = BY_FARMER\<rparr> ''trader1@test.com'' ''d5'') db_active) ''c2'')
       = Some (Some ''farmer'')"
  by (simp add: endpoint_defs example_defs Let_def)

text \<open>
  C8 as amended: a successful accept writes \<^verbatim>\<open>accepted_at\<close> and the caller's id as
  \<^verbatim>\<open>accepted_by\<close> (a trader's accept also as \<^verbatim>\<open>trader_id\<close>); a successful reject writes
  \<^verbatim>\<open>rejected_at\<close>, the caller's id as \<^verbatim>\<open>rejected_by\<close> and the reason; a successful cancel
  writes \<^verbatim>\<open>cancelled_at\<close> only; a successful complete writes \<^verbatim>\<open>completed_at\<close> and, as
  \<^verbatim>\<open>completed_by\<close>, the role named in the request. Each writes the new status and leaves
  every other field of the contract as it was. A transition attempted on a contract that
  is not in the required status (PENDING, or ACTIVE for complete) returns an error and
  the database unchanged.
\<close>

theorem transitions_stamp_and_guard:
  "(trader_accept_contract ra e t d = (Inr c', d') \<longrightarrow>
      (\<exists>u c. get_current_user_email e d = Inr u \<and> contracts_db d (ac_contract_id ra) = Some c
         \<and> c' = c\<lparr>c_trader_id := Some (u_id u), c_status := ACTIVE,
                   c_accepted_at := Some t, c_accepted_by := Some (u_id u)\<rparr>
         \<and> contracts_db d' (ac_contract_id ra) = Some c'))
   \<and> (farmer_accept_contract ra e t d = (Inr c', d') \<longrightarrow>
      (\<exists>u c. get_current_user_email e d = Inr u \<and> contracts_db d (ac_contract_id ra) = Some c
         \<and> c' = c\<lparr>c_status := ACTIVE, c_accepted_at := Some t, c_accepted_by := Some (u_id u)\<rparr>
         \<and> contracts_db d' (ac_contract_id ra) = Some c'))
   \<and> (reject_contract rr e t d = (Inr c', d') \<longrightarrow>
      (\<exists>u c. get_current_user_email e d = Inr u \<and> contracts_db d (rj_contract_id rr) = Some c
         \<and> c' = c\<lparr>c_status := REJECTED, c_rejected_at := Some t,
                   c_rejected_by := Some (u_id u),
                   c_rejection_reason := Some (rj_rejection_reason rr)\<rparr>
         \<and> contracts_db d' (rj_contract_id rr) = Some c'))
   \<and> (cancel_contract rc e t d = (Inr c', d') \<longrightarrow>
      (\<exists>c. contracts_db d (cn_contract_id rc) = Some c
         \<and> c' = c\<lparr>c_status := CANCELLED, c_cancelled_at := Some t\<rparr>
         \<and> contracts_db d' (cn_contract_id rc) = Some c'))
   \<and> (complete_contract rm e t d = (Inr c', d') \<longrightarrow>
      (\<exists>c. contracts_db d (cm_contract_id rm) = Some c
         \<and> c' = c\<lparr>c_status := COMPLETED, c_completed_at := Some t,
                   c_completed_by := Some (CreatedBy_value (cm_completed_by rm))\<rparr>
         \<and> contracts_db d' (cm_contract_id rm) = Some c'))
   \<and> (contracts_db d (ac_contract_id ra) = Some c0 \<and> c_status c0 \<noteq> PENDING \<longrightarrow>
        (\<exists>err. trader_accept_contract ra e t d = (Inl err, d))
      \<and> (\<exists>err. farmer_accept_contract ra e t d = (Inl err, d)))
   \<and> (contracts_db d (rj_contract_id rr) = Some c0 \<and> c_status c0 \<noteq> PENDING \<longrightarrow>
        (\<exists>err. reject_contract rr e t d = (Inl err, d)))
   \<and> (contracts_db d (cn_contract_id rc) = Some c0 \<and> c_status c0 \<noteq> PENDING \<longrightarrow>
        (\<exists>err. cancel_contract rc e t d = (Inl err, d)))
   \<and> (contracts_db d (cm_contract_id rm) = Some c0 \<and> c_status c0 \<noteq> ACTIVE \<longrightarrow>
        (\<exists>err. complete_contract rm e t d = (Inl err, d)))"
proof (intro conjI impI)
  assume a: "trader_accept_contract ra e t d = (Inr c', d')"
  from trader_accept_success [OF a]
  show "\<exists>u c. get_current_user_email e d = Inr u \<and> contracts_db d (ac_contract_id ra) = Some c
         \<and> c' = c\<lparr>c_trader_id := Some (u_id u), c_status := ACTIVE,
                   c_accepted_at := Some t, c_accepted_by := Some (u_id u)\<rparr>
         \<and> contracts_db d' (ac_contract_id ra) = Some c'"
    by auto
next
  assume a: "farmer_accept_contract ra e t d = (Inr c', d')"
  from farmer_accept_success [OF a]
  show "\<exists>u c. get_current_user_email e d = Inr u \<and> contracts_db d (ac_contract_id ra) = Some c
         \<and> c' = c\<lparr>c_status := ACTIVE, c_accepted_at := Some t, c_accepted_by := Some (u_id u)\<rparr>
         \<and> contracts_db d' (ac_contract_id ra) = Some c'"
    by auto
next
  assume a: "reject_contract rr e t d = (Inr c', d')"
  from reject_success [OF a]
  show "\<exists>u c. get_current_user_email e d = Inr u \<and> contracts_db d (rj_contract_id rr) = Some c
         \<and> c' = c\<lparr>c_status := REJECTED, c_rejected_at := Some t,
                   c_rejected_by := Some (u_id u),
                   c_rejection_reason := Some (rj_rejection_reason rr)\<rparr>
         \<and> contracts_db d' (rj_contract_id rr) = Some c'"
    by (auto split: if_splits)
next
  assume a: "cancel_contract rc e t d = (Inr c', d')"
  from cancel_success [OF a]
  show "\<exists>c. contracts_db d (cn_contract_id rc) = Some c
         \<and> c' = c\<lparr>c_status := CANCELLED, c_cancelled_at := Some t\<rparr>
         \<and> contracts_db d' (cn_contract_id rc) = Some c'"
    by (auto split: if_splits)
next
  assume a: "complete_contract rm e t d = (Inr c', d')"
  from complete_success [OF a]
  show "\<exists>c. contracts_db d (cm_contract_id rm) = Some c
         \<and> c' = c\<lparr>c_status := COMPLETED, c_completed_at := Some t,
                   c_completed_by := Some (CreatedBy_value (cm_completed_by rm))\<rparr>
         \<and> contracts_db d' (cm_contract_id rm) = Some c'"
    by auto
next
  assume "contracts_db d (ac_contract_id ra) = Some c0 \<and> c_status c0 \<noteq> PENDING"
  then show "\<exists>err. trader_accept_contract ra e t d = (Inl err, d)"
    using trader_accept_not_pending by blast
next
  assume "contracts_db d (ac_contract_id ra) = Some c0 \<and> c_status c0 \<noteq> PENDING"
  then show "\<exists>err. farmer_accept_contract ra e t d = (Inl err, d)"
    using farmer_accept_not_pending by blast
next
  assume "contracts_db d (rj_contract_id rr) = Some c0 \<and> c_status c0 \<noteq> PENDING"
  then show "\<exists>err. reject_contract rr e t d = (Inl err, d)"
    using reject_not_pending by blast
next
  assume "contracts_db d (cn_contract_id rc) = Some c0 \<and> c_status c0 \<noteq> PENDING"
  then show "\<exists>err. cancel_contract rc e t d = (Inl err, d)"
    using cancel_not_pending by blast
next
  assume "contracts_db d (cm_contract_id rm) = Some c0 \<and> c_status c0 \<noteq> ACTIVE"
  then show "\<exists>err. complete_contract rm e t d = (Inl err, d)"
    using complete_not_active by blast
qed

theorem transitions_stamp_and_guard_witness:
  "map_option c_accepted_by (contracts_db (step (Trader_accept \<lparr>ac_contract_id = ''c2''\<rparr>
        ''trader1@test.com'' ''d3'') db_pending) ''c2'') = Some (Some ''t1'')
   \<and> map_option c_accepted_at (contracts_db (step (Trader_accept \<lparr>ac_contract_id = ''c2''\<rparr>
        ''trader1@test.com'' ''d3'') db_pending) ''c2'') = Some (Some ''d3'')
   \<and> map_option c_accepted_by (contracts_db (step (Farmer_accept \<lparr>ac_contract_id = ''c1''\<rparr>
        ''farmer1@test.com'' ''d3'') db_pending) ''c1'') = Some (Some ''f1'')
   \<and> map_option c_rejected_by (contracts_db (step (Reject \<lparr>rj_contract_id = ''c2'',
        rj_rejection_reason = None\<rparr> ''trader1@test.com'' ''d3'') db_pending) ''c2'') = Some (Some ''t1'')
   \<and> contracts_db (step (Cancel \<lparr>cn_contract_id = ''c2''\<rparr> ''farmer1@test.com'' ''d3'') db_pending) ''c2''
       = Some (proposal_c2\<lparr>c_status := CANCELLED, c_cancelled_at := Some ''d3''\<rparr>)
   \<and> map_option c_completed_at (contracts_db (step (Complete \<lparr>cm_contract_id = ''c2'',
        cm_completed_by = BY_TRADER\<rparr> ''trader1@test.com'' ''d5'') db_active) ''c2'') = Some (Some ''d5'')
   \<and> map_option c_completed_by (contracts_db (step (Complete \<lparr>cm_contract_id = ''c2'',
        cm_completed_by = BY_TRADER\<rparr> ''trader1@test.com'' ''d5'') db_active) ''c2'') = Some (Some ''trader'')
   \<and> call (Reject \<lparr>rj_contract_id = ''c2'', rj_rejection_reason = None\<rparr> ''trader1@test.com'' ''d5'') db_active
       = (Some (HTTPException 400 Contract_is_not_pending), db_active)
   \<and> call (Complete \<lparr>cm_contract_id = ''c2'', cm_completed_by = BY_TRADER\<rparr> ''trader1@test.com'' ''d3'')
        db_pending
       = (Some (HTTPException 400 Contract_is_not_active), db_pending)"
proof -
  let ?TA = "trader_accept_contract \<lparr>ac_contract_id = ''c2''\<rparr> ''trader1@test.com'' ''d3'' db_pending"
  let ?FA = "farmer_accept_contract \<lparr>ac_contract_id = ''c1''\<rparr> ''farmer1@test.com'' ''d3'' db_pending"
  let ?RJ = "reject_contract \<lparr>rj_contract_id = ''c2'', rj_rejection_reason = None\<rparr>
               ''trader1@test.com'' ''d3'' db_pending"
  let ?CN = "cancel_contract \<lparr>cn_contract_id = ''c2''\<rparr> ''farmer1@test.com'' ''d3'' db_pending"
  let ?CM = "complete_contract \<lparr>cm_contract_id = ''c2'', cm_completed_by = BY_TRADER\<rparr>
               ''trader1@test.com'' ''d5'' db_active"
  have ok: "?TA = (Inr (projr (fst ?TA)), snd ?TA)" "?FA = (Inr (projr (fst ?FA)), snd ?FA)"
    "?RJ = (Inr (projr (fst ?RJ)), snd ?RJ)" "?CN = (Inr (projr (fst ?CN)), snd ?CN)"
    "?CM = (Inr (projr (fst ?CM)), snd ?CM)"
    by (simp_all add: endpoint_defs example_defs Let_def)
  have u: "get_current_user_email ''farmer1@test.com'' db_pending = Inr farmer1"
    "get_current_user_email ''trader1@test.com'' db_pending = Inr trader1"
    by (simp_all add: endpoint_defs example_defs Let_def)
  have c2: "contracts_db db_pending ''c2'' = Some proposal_c2"
    by (simp add: endpoint_defs example_defs Let_def)
  obtain a2 where a2: "contracts_db db_active ''c2'' = Some a2" "c_status a2 = ACTIVE"
    by (simp add: endpoint_defs example_defs Let_def)
  note T = transitions_stamp_and_guard
  have ta: "\<exists>u c. get_current_user_email ''trader1@test.com'' db_pending = Inr u
         \<and> contracts_db db_pending ''c2'' = Some c
         \<and> projr (fst ?TA) = c\<lparr>c_trader_id := Some (u_id u), c_status := ACTIVE,
                   c_accepted_at := Some ''d3'', c_accepted_by := Some (u_id u)\<rparr>
         \<and> contracts_db (snd ?TA) ''c2'' = Some (projr (fst ?TA))"
    using T [where ra = "\<lparr>ac_contract_id = ''c2''\<rparr>" and e = "''trader1@test.com''" and t = "''d3''"
               and d = db_pending and c' = "projr (fst ?TA)" and d' = "snd ?TA", THEN conjunct1]
      ok(1) by simp
  have fa: "\<exists>u c. get_current_user_email ''farmer1@test.com'' db_pending = Inr u
         \<and> contracts_db db_pending ''c1'' = Some c
         \<and> projr (fst ?FA) = c\<lparr>c_status := ACTIVE, c_accepted_at := Some ''d3'',
                   c_accepted_by := Some (u_id u)\<rparr>
         \<and> contracts_db (snd ?FA) ''c1'' = Some (projr (fst ?FA))"
    using T [where ra = "\<lparr>ac_contract_id = ''c1''\<rparr>" and e = "''farmer1@test.com''" and t = "''d3''"
               and d = db_pending and c' = "projr (fst ?FA)" and d' = "snd ?FA",
             THEN conjunct2, THEN conjunct1]
      ok(2) by simp
  have rj: "\<exists>u c. get_current_user_email ''trader1@test.com'' db_pending = Inr u
         \<and> contracts_db db_pending ''c2'' = Some c
         \<and> projr (fst ?RJ) = c\<lparr>c_status := REJECTED, c_rejected_at := Some ''d3'',
                   c_rejected_by := Some (u_id u), c_rejection_reason := Some None\<rparr>
         \<and> contracts_db (snd ?RJ) ''c2'' = Some (projr (fst ?RJ))"
    using T [where rr = "\<lparr>rj_contract_id = ''c2'', rj_rejection_reason = None\<rparr>"
               and e = "''trader1@test.com''" and t = "''d3''"
               and d = db_pending and c' = "projr (fst ?RJ)" and d' = "snd ?RJ",
             THEN conjunct2, THEN conjunct2, THEN conjunct1]
      ok(3) by simp
  have cn: "\<exists>c. contracts_db db_pending ''c2'' = Some c
         \<and> projr (fst ?CN) = c\<lparr>c_status := CANCELLED, c_cancelled_at := Some ''d3''\<rparr>
         \<and> contracts_db (snd ?CN) ''c2'' = Some (projr (fst ?CN))"
    using T [where rc = "\<lparr>cn_contract_id = ''c2''\<rparr>"
               and e = "''farmer1@test.com''" and t = "''d3''"
               and d = db_pending and c' = "projr (fst ?CN)" and d' = "snd ?CN",
             THEN conjunct2, THEN conjunct2, THEN conjunct2, THEN conjunct1]
      ok(4) by simp
  have cm: "\<exists>c. contracts_db db_active ''c2'' = Some c
         \<and> projr (fst ?CM) = c\<lparr>c_status := COMPLETED, c_completed_at := Some ''d5'',
               c_completed_by := Some (CreatedBy_value BY_TRADER)\<rparr>
         \<and> contracts_db (snd ?CM) ''c2'' = Some (projr (fst ?CM))"
    using T [where rm = "\<lparr>cm_contract_id = ''c2'', cm_completed_by = BY_TRADER\<rparr>"
               and e = "''trader1@test.com''" and t = "''d5''"
               and d = db_active and c' = "projr (fst ?CM)" and d' = "snd ?CM",
             THEN conjunct2, THEN conjunct2, THEN conjunct2, THEN conjunct2, THEN conjunct1]
      ok(5) by simp
  have g1: "\<exists>err. reject_contract \<lparr>rj_contract_id = ''c2'', rj_rejection_reason = None\<rparr>
               ''trader1@test.com'' ''d5'' db_active = (Inl err, db_active)"
    using T [where rr = "\<lparr>rj_contract_id = ''c2'', rj_rejection_reason = None\<rparr>"
               and e = "''trader1@test.com''" and t = "''d5''" and d = db_active and ?c0.0 = a2,
             THEN conjunct2, THEN conjunct2, THEN conjunct2, THEN conjunct2, THEN conjunct2,
             THEN conjunct2, THEN conjunct1]
      a2 by simp
  have g2: "\<exists>err. complete_contract \<lparr>cm_contract_id = ''c2'', cm_completed_by = BY_TRADER\<rparr>
               ''trader1@test.com'' ''d3'' db_pending = (Inl err, db_pending)"
    using T [where rm = "\<lparr>cm_contract_id = ''c2'', cm_completed_by = BY_TRADER\<rparr>"
               and e = "''trader1@test.com''" and t = "''d3''" and d = db_pending
               and ?c0.0 = proposal_c2,
             THEN conjunct2, THEN conjunct2, THEN conjunct2, THEN conjunct2, THEN conjunct2,
             THEN conjunct2, THEN conjunct2, THEN conjunct2]
      c2 by (simp add: proposal_c2_def)
  have e1: "call (Reject \<lparr>rj_contract_id = ''c2'', rj_rejection_reason = None\<rparr> ''trader1@test.com'' ''d5'') db_active
       = (Some (HTTPException 400 Contract_is_not_pending), db_active)"
  proof -
    have "get_current_user_email ''trader1@test.com'' db_active = Inr trader1"
      by (simp add: endpoint_defs example_defs Let_def)
    then show ?thesis using a2 g1
      by (simp add: outcome_def reject_contract_def)
  qed
  have e2: "call (Complete \<lparr>cm_contract_id = ''c2'', cm_completed_by = BY_TRADER\<rparr> ''trader1@test.com'' ''d3'')
        db_pending = (Some (HTTPException 400 Contract_is_not_active), db_pending)"
    using u(2) c2 g2 by (simp add: outcome_def complete_contract_def proposal_c2_def)
  show ?thesis
    using ta fa rj cn cm e1 e2 u c2
    by (auto simp add: step_def outcome_def farmer1_def trader1_def)
qed

end
